theory Spec2Isabelle
  imports Complex_Main
begin

section \<open>Geometry types of \<^verbatim>\<open>angles_to_config/types.h\<close>\<close>

text \<open>
  The header works on C++ \<^verbatim>\<open>double\<close>. \<^verbatim>\<open>XYZ\<close> computes with its members, so they are
  IEEE-754 binary64 values (type \<open>binary64\<close> below): every operation rounds to nearest,
  ties to even, overflows to an infinity, keeps the sign of zero and propagates NaN.
  \<^verbatim>\<open>RectBounds<double>\<close>, \<^verbatim>\<open>Point2d\<close>, \<^verbatim>\<open>LongLat\<close>, \<^verbatim>\<open>Config\<close> and \<^verbatim>\<open>XYLatLong\<close> only
  store, copy or negate their doubles; there a double is the real number it holds
  (type \<open>double\<close>).
\<close>

type_synonym double = real

subsection \<open>IEEE-754 binary64\<close>

text \<open>
  A binary64 value is a sign and a magnitude, an infinity with its sign, or NaN. The sign
  is \<open>True\<close> for negative, so \<open>Finite True 0\<close> is \<^verbatim>\<open>-0.0\<close>. The magnitude of a
  well-formed value is on the binary64 grid (\<open>is_double\<close>).
\<close>

datatype binary64 = Finite bool real | Infinity bool | NaN


fun is_zero :: "binary64 \<Rightarrow> bool" where
  "is_zero (Finite s m) = (m = 0)"
| "is_zero (Infinity s) = False"
| "is_zero NaN = False"



text \<open>The real number a finite value stands for (0 for the values that stand for none).\<close>

fun valof :: "binary64 \<Rightarrow> real" where
  "valof (Finite s m) = (if s then - m else m)"
| "valof (Infinity s) = 0"
| "valof NaN = 0"

text \<open>
  Rounding a magnitude \<open>r \<ge> 0\<close> to the grid. The spacing of the grid at \<open>r\<close> is
  \<open>2 powi ulp_exponent r\<close>: \<open>2 powi (-1074)\<close> below the smallest normal number
  \<open>2 powi (-1022)\<close>, and \<open>2 powi (e - 52)\<close> for \<open>r\<close> between \<open>2 powi e\<close> and \<open>2 powi (e + 1)\<close>.
  \<open>round_even\<close> is the nearest integer, the even one at a tie. A rounded magnitude of
  \<open>2 ^ 1024\<close> or more is an overflow.
\<close>

definition ulp_exponent :: "real \<Rightarrow> int" where
  "ulp_exponent r = (if r < 2 powi (- 1022) then - 1074 else \<lfloor>log 2 r\<rfloor> - 52)"

definition round_even :: "real \<Rightarrow> int" where
  "round_even q =
     (let f = \<lfloor>q\<rfloor> in
      if q - of_int f < 1 / 2 then f
      else if 1 / 2 < q - of_int f then f + 1
      else if even f then f else f + 1)"

definition round_mag :: "real \<Rightarrow> real" where
  "round_mag r = of_int (round_even (r / 2 powi ulp_exponent r)) * 2 powi ulp_exponent r"

definition round64 :: "bool \<Rightarrow> real \<Rightarrow> binary64" where
  "round64 s r = (if 2 ^ 1024 \<le> round_mag r then Infinity s else Finite s (round_mag r))"

fun is_double :: "binary64 \<Rightarrow> bool" where
  "is_double (Finite s m) = (0 \<le> m \<and> round_mag m = m \<and> m < 2 ^ 1024)"
| "is_double (Infinity s) = True"
| "is_double NaN = True"

text \<open>The multiples of the smallest subnormal number; every rounded magnitude is one.\<close>

definition on_grid :: "real \<Rightarrow> bool" where
  "on_grid m \<longleftrightarrow> (\<exists>k::int. m = of_int k * 2 powi (- 1074))"

text \<open>
  The operators of the header on doubles: unary \<^verbatim>\<open>-\<close>, \<^verbatim>\<open>+\<close>, binary \<^verbatim>\<open>-\<close>, \<^verbatim>\<open>*\<close>, \<^verbatim>\<open>/\<close>
  and \<^verbatim>\<open>std::sqrt\<close>, each the exact result rounded once, with the special cases of
  IEEE 754: infinity minus infinity, zero times infinity, zero by zero and infinity by
  infinity are NaN, a nonzero value divided by zero is an infinity, and an exact zero sum
  is \<^verbatim>\<open>-0.0\<close> only when both operands are negative. Nothing traps: a division by zero
  returns a value. Expressions are evaluated in binary64 as written, without fused
  multiply-add and without excess precision.
\<close>

fun dneg :: "binary64 \<Rightarrow> binary64" where
  "dneg (Finite s m) = Finite (\<not> s) m"
| "dneg (Infinity s) = Infinity (\<not> s)"
| "dneg NaN = NaN"

fun dadd :: "binary64 \<Rightarrow> binary64 \<Rightarrow> binary64" where
  "dadd NaN b = NaN"
| "dadd a NaN = NaN"
| "dadd (Infinity s) (Infinity t) = (if s = t then Infinity s else NaN)"
| "dadd (Infinity s) (Finite t b) = Infinity s"
| "dadd (Finite s a) (Infinity t) = Infinity t"
| "dadd (Finite s a) (Finite t b) =
     (let r = valof (Finite s a) + valof (Finite t b) in
      if r = 0 then Finite (s \<and> t) 0 else round64 (r < 0) \<bar>r\<bar>)"


fun dmul :: "binary64 \<Rightarrow> binary64 \<Rightarrow> binary64" where
  "dmul NaN b = NaN"
| "dmul a NaN = NaN"
| "dmul (Infinity s) (Infinity t) = Infinity (s \<noteq> t)"
| "dmul (Infinity s) (Finite t b) = (if b = 0 then NaN else Infinity (s \<noteq> t))"
| "dmul (Finite s a) (Infinity t) = (if a = 0 then NaN else Infinity (s \<noteq> t))"
| "dmul (Finite s a) (Finite t b) = round64 (s \<noteq> t) (a * b)"

fun ddiv :: "binary64 \<Rightarrow> binary64 \<Rightarrow> binary64" where
  "ddiv NaN b = NaN"
| "ddiv a NaN = NaN"
| "ddiv (Infinity s) (Infinity t) = NaN"
| "ddiv (Infinity s) (Finite t b) = Infinity (s \<noteq> t)"
| "ddiv (Finite s a) (Infinity t) = Finite (s \<noteq> t) 0"
| "ddiv (Finite s a) (Finite t b) =
     (if b = 0 then (if a = 0 then NaN else Infinity (s \<noteq> t))
      else round64 (s \<noteq> t) (a / b))"





subsection \<open>RectBounds\<close>

text \<open>
  \<^verbatim>\<open>template <typename T> struct RectBounds\<close>: the element type stays a parameter.
  Unary minus is the only operation used on it.
\<close>

record 'a RectBounds =
  left :: 'a
  right :: 'a
  top :: 'a
  bottom :: 'a

type_synonym RectBoundsd = "double RectBounds"

definition reflectedHorizontally :: "('a::uminus) RectBounds \<Rightarrow> 'a RectBounds" where
  "reflectedHorizontally b =
     \<lparr>left = - right b, right = - left b, top = top b, bottom = bottom b\<rparr>"

subsection \<open>Point2d and LongLat\<close>

text \<open>
  \<^verbatim>\<open>std::array<double, 2>\<close>: element 0 is the first component of the pair, element 1
  the second.
\<close>

type_synonym Point2d = "double \<times> double"

record LongLat =
  longLat :: Point2d

text \<open>The read-only accessors \<^verbatim>\<open>longitude() const\<close> and \<^verbatim>\<open>latitude() const\<close>.\<close>

definition LongLat_longitude :: "LongLat \<Rightarrow> double" where
  "LongLat_longitude ll = fst (longLat ll)"

definition LongLat_latitude :: "LongLat \<Rightarrow> double" where
  "LongLat_latitude ll = snd (longLat ll)"

text \<open>
  The accessors returning \<^verbatim>\<open>double &\<close>: an assignment through the reference,
  \<^verbatim>\<open>ll.longitude() = v\<close>, stores into \<^verbatim>\<open>longLat[0]\<close>, and \<^verbatim>\<open>ll.latitude() = v\<close>
  into \<^verbatim>\<open>longLat[1]\<close>.
\<close>

definition LongLat_longitude_assign :: "LongLat \<Rightarrow> double \<Rightarrow> LongLat" where
  "LongLat_longitude_assign ll v = ll\<lparr>longLat := (v, snd (longLat ll))\<rparr>"

definition LongLat_latitude_assign :: "LongLat \<Rightarrow> double \<Rightarrow> LongLat" where
  "LongLat_latitude_assign ll v = ll\<lparr>longLat := (fst (longLat ll), v)\<rparr>"

subsection \<open>Config\<close>

record Config =
  useRightEye :: bool
  computeScreenBounds :: bool
  suppliedScreenBounds :: RectBoundsd
  useFieldAngles :: bool
  toMeters :: double
  depth :: double
  verifyAngles :: bool
  xx :: double
  xy :: double
  yx :: double
  yy :: double
  maxAngleDiffDegrees :: double
  verbose :: bool

text \<open>
  Default initialisation, \<^verbatim>\<open>Config c;\<close>. Seven members carry a default member
  initialiser. \<^verbatim>\<open>suppliedScreenBounds\<close>, \<^verbatim>\<open>xx\<close>, \<^verbatim>\<open>xy\<close>, \<^verbatim>\<open>yx\<close>, \<^verbatim>\<open>yy\<close> and
  \<^verbatim>\<open>maxAngleDiffDegrees\<close> carry none, so they keep whatever the storage held: those
  contents are the arguments of the model.
\<close>

definition Config_default ::
  "RectBoundsd \<Rightarrow> double \<Rightarrow> double \<Rightarrow> double \<Rightarrow> double \<Rightarrow> double \<Rightarrow> Config" where
  "Config_default bounds0 xx0 xy0 yx0 yy0 diff0 =
     \<lparr>useRightEye = False,
      computeScreenBounds = True,
      suppliedScreenBounds = bounds0,
      useFieldAngles = True,
      toMeters = 1.0,
      depth = 2.0,
      verifyAngles = False,
      xx = xx0, xy = xy0, yx = yx0, yy = yy0,
      maxAngleDiffDegrees = diff0,
      verbose = False\<rparr>"

subsection \<open>XYLatLong\<close>

record XYLatLong =
  x :: double
  y :: double
  latitude :: double
  longitude :: double

text \<open>\<^verbatim>\<open>XYLatLong(px, py, plat, plong)\<close>: the members start at 0 and are then assigned.\<close>

definition XYLatLong_default :: XYLatLong where
  "XYLatLong_default = \<lparr>x = 0, y = 0, latitude = 0, longitude = 0\<rparr>"

definition XYLatLong :: "double \<Rightarrow> double \<Rightarrow> double \<Rightarrow> double \<Rightarrow> XYLatLong" where
  "XYLatLong px py plat plong =
     XYLatLong_default\<lparr>x := px, y := py, latitude := plat, longitude := plong\<rparr>"

subsection \<open>XYZ\<close>

record XYZ =
  x :: binary64
  y :: binary64
  z :: binary64

definition XYZ :: "binary64 \<Rightarrow> binary64 \<Rightarrow> binary64 \<Rightarrow> XYZ" where
  "XYZ px py pz = \<lparr>x = px, y = py, z = pz\<rparr>"

definition XYZ_default :: XYZ where
  "XYZ_default = \<lparr>x = Finite False 0, y = Finite False 0, z = Finite False 0\<rparr>"

text \<open>
  \<^verbatim>\<open>std::atan2(y, x)\<close> of the C library. Its special cases are those of C Annex F: the
  result has the sign of \<open>y\<close>; for a zero \<open>y\<close> it is a zero when \<open>x\<close> is positive or
  \<^verbatim>\<open>+0.0\<close> and \<open>\<pi>\<close> when \<open>x\<close> is negative or \<^verbatim>\<open>-0.0\<close>; for a nonzero \<open>y\<close> and a zero \<open>x\<close> it is
  \<open>\<pi>/2\<close>; for a finite \<open>y\<close> and an infinite \<open>x\<close> it is a zero or \<open>\<pi>\<close>; for an infinite \<open>y\<close> it
  is \<open>\<pi>/2\<close>, \<open>\<pi>/4\<close> or \<open>3\<pi>/4\<close>. Every angle is returned as the nearest double. The
  standard does not fix the accuracy of the library away from the special cases; the
  model takes the nearest double there too.
\<close>

fun atan2 :: "binary64 \<Rightarrow> binary64 \<Rightarrow> binary64" where
  "atan2 NaN u = NaN"
| "atan2 v NaN = NaN"
| "atan2 (Infinity s) (Infinity t) = round64 s (if t then 3 * pi / 4 else pi / 4)"
| "atan2 (Infinity s) (Finite t b) = round64 s (pi / 2)"
| "atan2 (Finite s a) (Infinity t) = round64 s (if t then pi else 0)"
| "atan2 (Finite s a) (Finite t b) =
     round64 s
       (if b = 0 then (if a = 0 then (if t then pi else 0) else pi / 2)
        else if t then pi - arctan (a / b) else arctan (a / b))"

definition rotationAboutY :: "XYZ \<Rightarrow> binary64" where
  "rotationAboutY p = atan2 (dneg (x p)) (dneg (z p))"

text \<open>
  \<^verbatim>\<open>projectOntoPlane\<close>: \<^verbatim>\<open>ret\<close> is default-constructed, \<^verbatim>\<open>s = -D / (A*x + B*y + C*z)\<close>,
  and the three members of \<^verbatim>\<open>ret\<close> are assigned. The divisor, \<^verbatim>\<open>(A*x + B*y) + C*z\<close> as
  C++ groups it, is named \<open>denominator\<close>. The code has no guard on it and no failure
  path: it returns an \<^verbatim>\<open>XYZ\<close> for every input.
\<close>

definition denominator :: "XYZ \<Rightarrow> binary64 \<Rightarrow> binary64 \<Rightarrow> binary64 \<Rightarrow> binary64" where
  "denominator p A B C = dadd (dadd (dmul A (x p)) (dmul B (y p))) (dmul C (z p))"

definition projectOntoPlane ::
  "XYZ \<Rightarrow> binary64 \<Rightarrow> binary64 \<Rightarrow> binary64 \<Rightarrow> binary64 \<Rightarrow> XYZ" where
  "projectOntoPlane p A B C D =
     (let s = ddiv (dneg D) (denominator p A B C) in
      XYZ_default\<lparr>x := dmul s (x p), y := dmul s (y p), z := dmul s (z p)\<rparr>)"




subsection \<open>Mapping, ScreenDescription, MeshDescription\<close>

record Mapping =
  xyLatLong :: XYLatLong
  xyz :: XYZ

definition Mapping :: "XYLatLong \<Rightarrow> XYZ \<Rightarrow> Mapping" where
  "Mapping ll p = \<lparr>xyLatLong = ll, xyz = p\<rparr>"

text \<open>The plane coefficients are arguments of \<^verbatim>\<open>projectOntoPlane\<close>, hence binary64.\<close>

record ScreenDescription =
  hFOVDegrees :: double
  vFOVDegrees :: double
  overlapPercent :: double
  xCOP :: double
  yCOP :: double
  A :: binary64
  B :: binary64
  C :: binary64
  D :: binary64
  screenLeft :: XYZ
  screenRight :: XYZ
  maxY :: double

text \<open>
  A mesh entry is \<^verbatim>\<open>std::array<std::array<double, 2>, 2>\<close>: element 0 the "from"
  coordinate, element 1 the "to" coordinate.
\<close>

type_synonym MeshDescription = "(Point2d \<times> Point2d) list"

subsection \<open>The mesh builder\<close>

text \<open>
  Modelled from the spec: the mesh builder (\<^verbatim>\<open>findMesh\<close>), whose code is not part of
  \<^verbatim>\<open>types.h\<close>; the header only declares its input (\<^verbatim>\<open>Mapping\<close>,
  \<^verbatim>\<open>ScreenDescription\<close>) and its output (\<^verbatim>\<open>MeshDescription\<close>). Following section 4.2
  of the specification, each mapping, in input order, has its direction projected onto
  the fitted plane with \<^verbatim>\<open>projectOntoPlane(A, B, C, D)\<close>; the "from" coordinate is the
  projected point expressed relative to the screen description, the "to" coordinate is
  the sample's raw \<open>(x, y)\<close> under the configured normalisation; a sample whose projection
  denominator is zero fails the whole build. The specification gives neither
  normalisation as a formula, so both are parameters: \<open>physNorm\<close> for the "from" side and
  \<open>toNorm\<close> for the "to" side.
\<close>

fun findMesh ::
  "(ScreenDescription \<Rightarrow> XYZ \<Rightarrow> Point2d) \<Rightarrow> (Point2d \<Rightarrow> Point2d) \<Rightarrow>
   ScreenDescription \<Rightarrow> Mapping list \<Rightarrow> MeshDescription option" where
  "findMesh physNorm toNorm screen [] = Some []"
| "findMesh physNorm toNorm screen (m # ms) =
     (if is_zero (denominator (xyz m) (A screen) (B screen) (C screen)) then None
      else
        (case findMesh physNorm toNorm screen ms of
           None \<Rightarrow> None
         | Some mesh \<Rightarrow>
             Some ((physNorm screen
                      (projectOntoPlane (xyz m) (A screen) (B screen) (C screen) (D screen)),
                    toNorm (XYLatLong.x (xyLatLong m), XYLatLong.y (xyLatLong m))) # mesh)))"

text \<open>
  A screen in the plane \<open>z = -1\<close> and two samples, used to run the mesh builder on a
  concrete table.
\<close>

definition exampleScreen :: ScreenDescription where
  "exampleScreen =
     \<lparr>hFOVDegrees = 90, vFOVDegrees = 90, overlapPercent = 100, xCOP = 1 / 2, yCOP = 1 / 2,
      A = Finite False 0, B = Finite False 0, C = Finite False 1, D = Finite False 1,
      screenLeft = XYZ (Finite True 1) (Finite False 0) (Finite True 1),
      screenRight = XYZ (Finite False 1) (Finite False 0) (Finite True 1), maxY = 1\<rparr>"

definition exampleMappings :: "Mapping list" where
  "exampleMappings =
     [Mapping (XYLatLong 3 4 0 0) (XYZ (Finite False 0) (Finite False 0) (Finite True 1)),
      Mapping (XYLatLong 5 6 0 1) (XYZ (Finite False 1) (Finite False 0) (Finite True 2))]"

section \<open>RectBounds\<close>

text \<open>
  C4. Reflecting a RectBounds horizontally gives left = -right and right = -left and
  keeps top and bottom; reflecting twice gives the original RectBounds back. Stated for
  every element type whose negation is an involution (as it is for \<^verbatim>\<open>double\<close>).
\<close>

theorem reflectedHorizontally_involution:
  fixes b :: "('a::group_add) RectBounds"
  shows "left (reflectedHorizontally b) = - right b
       \<and> right (reflectedHorizontally b) = - left b
       \<and> top (reflectedHorizontally b) = top b
       \<and> bottom (reflectedHorizontally b) = bottom b
       \<and> reflectedHorizontally (reflectedHorizontally b) = b"
  by (simp add: reflectedHorizontally_def)

lemma reflectedHorizontally_example:
  "reflectedHorizontally \<lparr>left = - 3, right = 5, top = 2, bottom = - 2 :: double\<rparr>
     = \<lparr>left = - 5, right = 3, top = 2, bottom = - 2\<rparr>"
  by (simp add: reflectedHorizontally_def)

section \<open>LongLat\<close>

text \<open>
  C8. In LongLat, longitude() reads the first component of the underlying Point2d and
  an assignment through longitude() writes it, leaving the second component alone;
  latitude() reads the second component and an assignment through latitude() writes it,
  leaving the first alone.
\<close>

theorem LongLat_accessors:
  "LongLat_longitude ll = fst (longLat ll)
   \<and> LongLat_latitude ll = snd (longLat ll)
   \<and> longLat (LongLat_longitude_assign ll v) = (v, snd (longLat ll))
   \<and> longLat (LongLat_latitude_assign ll v) = (fst (longLat ll), v)
   \<and> LongLat_longitude (LongLat_longitude_assign ll v) = v
   \<and> LongLat_latitude (LongLat_longitude_assign ll v) = LongLat_latitude ll
   \<and> LongLat_latitude (LongLat_latitude_assign ll v) = v
   \<and> LongLat_longitude (LongLat_latitude_assign ll v) = LongLat_longitude ll"
  by (simp add: LongLat_longitude_def LongLat_latitude_def
      LongLat_longitude_assign_def LongLat_latitude_assign_def)

section \<open>Config\<close>

text \<open>
  C9. A default-constructed Config has useRightEye = false, computeScreenBounds = true,
  useFieldAngles = true, toMeters = 1.0, depth = 2.0, verifyAngles = false and
  verbose = false, whatever the storage held; suppliedScreenBounds, xx, xy, yx, yy and
  maxAngleDiffDegrees get no value of their own and are whatever the storage held.
\<close>

theorem Config_default_values:
  "useRightEye (Config_default b0 a1 a2 a3 a4 a5) = False
   \<and> computeScreenBounds (Config_default b0 a1 a2 a3 a4 a5) = True
   \<and> useFieldAngles (Config_default b0 a1 a2 a3 a4 a5) = True
   \<and> toMeters (Config_default b0 a1 a2 a3 a4 a5) = 1
   \<and> depth (Config_default b0 a1 a2 a3 a4 a5) = 2
   \<and> verifyAngles (Config_default b0 a1 a2 a3 a4 a5) = False
   \<and> verbose (Config_default b0 a1 a2 a3 a4 a5) = False
   \<and> suppliedScreenBounds (Config_default b0 a1 a2 a3 a4 a5) = b0
   \<and> xx (Config_default b0 a1 a2 a3 a4 a5) = a1
   \<and> xy (Config_default b0 a1 a2 a3 a4 a5) = a2
   \<and> yx (Config_default b0 a1 a2 a3 a4 a5) = a3
   \<and> yy (Config_default b0 a1 a2 a3 a4 a5) = a4
   \<and> maxAngleDiffDegrees (Config_default b0 a1 a2 a3 a4 a5) = a5"
  by (simp add: Config_default_def)

section \<open>XYLatLong and Mapping\<close>

text \<open>
  The four-argument constructor stores its arguments, the default constructor stores
  zeros, and the constructor of Mapping stores the sample and the direction it is given.
  These are all the operations of the header on a sample. The members themselves are
  declared public and without \<^verbatim>\<open>const\<close>.
\<close>

lemma XYLatLong_constructor_fields:
  "XYLatLong.x (XYLatLong px py plat plong) = px
   \<and> XYLatLong.y (XYLatLong px py plat plong) = py
   \<and> latitude (XYLatLong px py plat plong) = plat
   \<and> longitude (XYLatLong px py plat plong) = plong"
  by (simp add: XYLatLong_def XYLatLong_default_def)

lemma XYLatLong_default_fields:
  "XYLatLong.x XYLatLong_default = 0 \<and> XYLatLong.y XYLatLong_default = 0
   \<and> latitude XYLatLong_default = 0 \<and> longitude XYLatLong_default = 0"
  by (simp add: XYLatLong_default_def)

lemma Mapping_constructor_fields:
  "xyLatLong (Mapping ll p) = ll \<and> xyz (Mapping ll p) = p"
  by (simp add: Mapping_def)

section \<open>Rounding\<close>

subsection \<open>Evaluating the rounding\<close>

lemma ulp_exponent_normal:
  assumes "- 1022 \<le> e" "2 powi e \<le> r" "r < 2 powi (e + 1)"
  shows "ulp_exponent r = e - 52"
proof -
  have "(2::real) powi (- 1022) \<le> 2 powi e"
    using assms(1) by (intro power_int_increasing) auto
  with assms(2) have nsub: "\<not> r < 2 powi (- 1022)" by linarith
  have pos: "0 < r"
    using assms(2) by (smt (verit) zero_less_power_int)
  have "2 powr (real_of_int e + 1) = (2::real) powi (e + 1)"
    using powr_real_of_int' [of 2 "e + 1"] by simp
  moreover have "2 powr (real_of_int e) = (2::real) powi e"
    using powr_real_of_int' [of 2 e] by simp
  ultimately have "\<lfloor>log 2 r\<rfloor> = e"
    using assms(2,3) pos by (simp add: floor_log_eq_powr_iff)
  with nsub show ?thesis by (simp add: ulp_exponent_def)
qed

lemma round_mag_normal:
  assumes "- 1022 \<le> e" "2 powi e \<le> r" "r < 2 powi (e + 1)"
  shows "round_mag r = of_int (round_even (r / 2 powi (e - 52))) * 2 powi (e - 52)"
  by (simp add: round_mag_def ulp_exponent_normal [OF assms])

lemma round_mag_0 [simp]: "round_mag 0 = 0"
  by (simp add: round_mag_def round_even_def)

lemma round_mag_1 [simp]: "round_mag 1 = 1"
  using round_mag_normal [of 0 1] by (simp add: round_even_def)

lemma round_mag_2 [simp]: "round_mag 2 = 2"
  using round_mag_normal [of 1 2] by (simp add: round_even_def)

lemma round_mag_3: "round_mag 3 = 3"
  using round_mag_normal [of 1 3] by (simp add: round_even_def)

lemma round_mag_4: "round_mag 4 = 4"
  using round_mag_normal [of 2 4] by (simp add: round_even_def)

lemma round_mag_5: "round_mag 5 = 5"
  using round_mag_normal [of 2 5] by (simp add: round_even_def)

lemma round_mag_6: "round_mag 6 = 6"
  using round_mag_normal [of 2 6] by (simp add: round_even_def)

lemma round_mag_9: "round_mag 9 = 9"
  using round_mag_normal [of 3 9] by (simp add: round_even_def)

lemma round_mag_16: "round_mag 16 = 16"
  using round_mag_normal [of 4 16] by (simp add: round_even_def)

lemma round_mag_25: "round_mag 25 = 25"
  using round_mag_normal [of 4 25] by (simp add: round_even_def)

lemma round64_0 [simp]: "round64 s 0 = Finite s 0"
  by (simp add: round64_def)

lemma round64_1 [simp]: "round64 s 1 = Finite s 1"
  by (simp add: round64_def)

lemmas round_mag_small = round_mag_0 round_mag_1 round_mag_2 round_mag_3 round_mag_4
  round_mag_5 round_mag_6 round_mag_9 round_mag_16 round_mag_25

lemma round_mag_half: "round_mag (1 / 2) = 1 / 2"
  using round_mag_normal [of "- 1" "1 / 2"] by (simp add: round_even_def)




lemma round_mag_2_53: "round_mag (2 ^ 53) = 2 ^ 53"
  using round_mag_normal [of 53 "2 ^ 53"] by (simp add: round_even_def)

lemma round_mag_2_53_plus_1: "round_mag (2 ^ 53 + 1) = 2 ^ 53"
  using round_mag_normal [of 53 "2 ^ 53 + 1"] by (simp add: round_even_def)

lemma round_mag_2_53_plus_2: "round_mag (2 ^ 53 + 2) = 2 ^ 53 + 2"
  using round_mag_normal [of 53 "2 ^ 53 + 2"] by (simp add: round_even_def)

lemma round_mag_one_plus_ulp:
  "round_mag (4503599627370497 / 4503599627370496) = 4503599627370497 / 4503599627370496"
  using round_mag_normal [of 0 "4503599627370497 / 4503599627370496"]
  by (simp add: round_even_def)






subsection \<open>Properties of the rounding\<close>

lemma ulp_exponent_ge: "- 1074 \<le> ulp_exponent r"
proof (cases "r < 2 powi (- 1022)")
  case True
  then show ?thesis by (simp add: ulp_exponent_def)
next
  case False
  then have le: "2 powi (- 1022) \<le> r" by simp
  have pos: "0 < r"
    using le by (smt (verit) zero_less_power_int)
  have "2 powr (real_of_int (- 1022)) = (2::real) powi (- 1022)"
    using powr_real_of_int' [of 2 "- 1022"] by simp
  then have "real_of_int (- 1022) \<le> log 2 r"
    using le pos by (simp add: le_log_iff del: power_int_numeral_neg_numeral)
  then have fl: "- 1022 \<le> \<lfloor>log 2 r\<rfloor>"
    by (simp add: le_floor_iff)
  have "ulp_exponent r = \<lfloor>log 2 r\<rfloor> - 52"
    using False by (simp only: ulp_exponent_def if_False)
  with fl show ?thesis by linarith
qed

lemma two_powi_ulp_exponent_le:
  assumes "2 powi (- 1074) \<le> r"
  shows "2 powi ulp_exponent r \<le> r"
proof (cases "r < 2 powi (- 1022)")
  case True
  with assms show ?thesis by (simp add: ulp_exponent_def)
next
  case False
  have pos: "0 < r"
    using assms by (smt (verit) zero_less_power_int)
  have "2 powr (real_of_int \<lfloor>log 2 r\<rfloor>) \<le> r"
    using floor_log_eq_powr_iff [of r 2 "\<lfloor>log 2 r\<rfloor>"] pos by simp
  moreover have "2 powr (real_of_int \<lfloor>log 2 r\<rfloor>) = (2::real) powi \<lfloor>log 2 r\<rfloor>"
    using powr_real_of_int' [of 2 "\<lfloor>log 2 r\<rfloor>"] by simp
  moreover have "(2::real) powi (\<lfloor>log 2 r\<rfloor> - 52) \<le> 2 powi \<lfloor>log 2 r\<rfloor>"
    by (intro power_int_increasing) auto
  ultimately show ?thesis using False by (simp add: ulp_exponent_def)
qed


lemma round_even_mono_int: "of_int k \<le> q \<Longrightarrow> k \<le> round_even q"
proof -
  assume "of_int k \<le> q"
  then have "k \<le> \<lfloor>q\<rfloor>" by (simp add: le_floor_iff)
  then show ?thesis by (auto simp add: round_even_def Let_def)
qed

lemma round_mag_nonneg: "0 \<le> r \<Longrightarrow> 0 \<le> round_mag r"
proof -
  assume "0 \<le> r"
  then have "of_int 0 \<le> r / 2 powi ulp_exponent r" by simp
  then have "0 \<le> round_even (r / 2 powi ulp_exponent r)" by (rule round_even_mono_int)
  then show ?thesis by (simp add: round_mag_def)
qed

text \<open>A magnitude of at least the smallest subnormal number does not round to zero.\<close>

lemma round_mag_pos:
  assumes "2 powi (- 1074) \<le> r"
  shows "0 < round_mag r"
proof -
  have "2 powi ulp_exponent r \<le> r" using assms by (rule two_powi_ulp_exponent_le)
  then have "of_int 1 \<le> r / 2 powi ulp_exponent r"
    by (simp add: le_divide_eq)
  then have "1 \<le> round_even (r / 2 powi ulp_exponent r)" by (rule round_even_mono_int)
  then have "0 < real_of_int (round_even (r / 2 powi ulp_exponent r))" by simp
  then show ?thesis by (simp add: round_mag_def)
qed

lemma round64_not_zero:
  assumes "2 powi (- 1074) \<le> r"
  shows "\<not> is_zero (round64 s r)"
  using round_mag_pos [OF assms] by (simp add: round64_def)


subsection \<open>The grid\<close>

lemma on_grid_0: "on_grid 0"
  unfolding on_grid_def by (rule exI [of _ 0]) simp

lemma round_mag_on_grid: "on_grid (round_mag r)"
proof -
  define u where "u = ulp_exponent r"
  define n where "n = round_even (r / 2 powi u)"
  have u: "0 \<le> u + 1074" using ulp_exponent_ge [of r] by (simp add: u_def)
  have "(2::real) powi u = 2 powi (u + 1074) * 2 powi (- 1074)"
    by (simp add: power_int_add [symmetric] del: power_int_numeral_neg_numeral)
  also have "(2::real) powi (u + 1074) = of_int (2 ^ nat (u + 1074))"
    using u by (simp add: power_int_def)
  finally have "round_mag r = of_int (n * 2 ^ nat (u + 1074)) * 2 powi (- 1074)"
    by (simp add: round_mag_def u_def n_def del: power_int_numeral_neg_numeral)
  then show ?thesis unfolding on_grid_def by blast
qed

lemma on_grid_add: "on_grid a \<Longrightarrow> on_grid b \<Longrightarrow> on_grid (a + b)"
  unfolding on_grid_def
proof -
  assume "\<exists>k::int. a = of_int k * 2 powi (- 1074)" "\<exists>k::int. b = of_int k * 2 powi (- 1074)"
  then obtain k l :: int where "a = of_int k * 2 powi (- 1074)" "b = of_int l * 2 powi (- 1074)"
    by blast
  then have "a + b = of_int (k + l) * 2 powi (- 1074)"
    by (simp add: algebra_simps del: power_int_numeral_neg_numeral)
  then show "\<exists>k::int. a + b = of_int k * 2 powi (- 1074)" by blast
qed

lemma on_grid_minus: "on_grid a \<Longrightarrow> on_grid (- a)"
  unfolding on_grid_def
proof -
  assume "\<exists>k::int. a = of_int k * 2 powi (- 1074)"
  then obtain k :: int where "a = of_int k * 2 powi (- 1074)" by blast
  then have "- a = of_int (- k) * 2 powi (- 1074)"
    by (simp del: power_int_numeral_neg_numeral)
  then show "\<exists>k::int. - a = of_int k * 2 powi (- 1074)" by blast
qed

lemma on_grid_abs_ge:
  assumes "on_grid r" "r \<noteq> 0"
  shows "2 powi (- 1074) \<le> \<bar>r\<bar>"
proof -
  from assms(1) obtain k :: int where k: "r = of_int k * 2 powi (- 1074)"
    unfolding on_grid_def by blast
  with assms(2) have "k \<noteq> 0" by auto
  then have "1 \<le> \<bar>real_of_int k\<bar>" by linarith
  moreover have "\<bar>r\<bar> = \<bar>real_of_int k\<bar> * 2 powi (- 1074)"
    by (simp add: k abs_mult del: power_int_numeral_neg_numeral)
  moreover have "0 < (2::real) powi (- 1074)" by (rule zero_less_power_int) simp
  ultimately show ?thesis
    by (metis mult_le_cancel_right_pos mult_1)
qed

lemma is_double_on_grid: "is_double (Finite s m) \<Longrightarrow> on_grid m"
  using round_mag_on_grid [of m] by simp

subsection \<open>The operations\<close>




lemma dadd_Finite_on_grid:
  assumes "dadd u v = Finite t b"
  shows "0 \<le> b \<and> on_grid b"
proof (cases u)
  case (Finite s a)
  note u = this
  show ?thesis
  proof (cases v)
    case (Finite s' a')
    show ?thesis
    proof (cases "valof u + valof v = 0")
      case True
      with assms u Finite show ?thesis by (simp add: on_grid_0 Let_def)
    next
      case False
      with assms u Finite
      have "Finite t b = round64 (valof u + valof v < 0) \<bar>valof u + valof v\<bar>"
        by (simp add: Let_def)
      then have "b = round_mag \<bar>valof u + valof v\<bar>"
        by (simp add: round64_def split: if_splits)
      then show ?thesis
        using round_mag_on_grid round_mag_nonneg [of "\<bar>valof u + valof v\<bar>"] by simp
    qed
  next
    case (Infinity s')
    with assms u show ?thesis by simp
  next
    case NaN
    with assms u show ?thesis by simp
  qed
next
  case (Infinity s)
  with assms show ?thesis by (cases v) (simp_all split: if_splits)
next
  case NaN
  with assms show ?thesis by simp
qed

text \<open>A sum of two doubles is a zero only when the real sum is zero.\<close>

lemma dadd_is_zero:
  assumes z: "is_zero (dadd (Finite s a) (Finite t b))"
    and ga: "on_grid a" and gb: "on_grid b"
  shows "valof (Finite s a) + valof (Finite t b) = 0"
proof (rule ccontr)
  let ?r = "valof (Finite s a) + valof (Finite t b)"
  assume nz: "?r \<noteq> 0"
  have "on_grid (valof (Finite s a))" "on_grid (valof (Finite t b))"
    using ga gb by (simp_all add: on_grid_minus)
  then have "on_grid ?r" by (rule on_grid_add)
  then have "2 powi (- 1074) \<le> \<bar>?r\<bar>" using nz by (rule on_grid_abs_ge)
  then have "\<not> is_zero (round64 (?r < 0) \<bar>?r\<bar>)" by (rule round64_not_zero)
  moreover have "dadd (Finite s a) (Finite t b) = round64 (?r < 0) \<bar>?r\<bar>"
    using nz by (simp add: Let_def)
  ultimately show False using z by simp
qed

lemma is_zero_dadd_Finite:
  assumes "is_zero (dadd u v)"
  obtains s a t b where "u = Finite s a" "v = Finite t b"
  using assms by (cases u; cases v) (simp_all split: if_splits)



lemma dmul_one:
  assumes "is_double c"
  shows "dmul (Finite False 1) c = c"
  using assms by (cases c) (simp_all add: round64_def)




section \<open>XYZ\<close>

subsection \<open>rotationAboutY\<close>






text \<open>Rotation by \<open>\<pi>\<close> at a direction along +Z, and at the default \<^verbatim>\<open>XYZ()\<close>: the negation
  of \<^verbatim>\<open>+0.0\<close> is \<^verbatim>\<open>-0.0\<close>, so the angle is negative.\<close>

lemma rotationAboutY_plus_Z:
  "rotationAboutY (XYZ (Finite False 0) (Finite False 0) (Finite False 1)) = round64 True pi"
  by (simp add: rotationAboutY_def XYZ_def)

lemma rotationAboutY_default: "rotationAboutY XYZ_default = round64 True pi"
  by (simp add: rotationAboutY_def XYZ_default_def)



subsection \<open>projectOntoPlane\<close>









text \<open>
  C10 (as amended). For every plane (A,B,C,D) with D nonzero and every point P that
  lies on the plane as the code itself would evaluate the equation, that is, with
  ((A*Px + B*Py) + C*Pz) + D equal to zero in double arithmetic, projectOntoPlane returns
  P itself. P and D are doubles.
\<close>

theorem projectOntoPlane_fixed_point:
  fixes A B C D :: binary64 and p :: XYZ
  assumes wf: "is_double (x p)" "is_double (y p)" "is_double (z p)" "is_double D"
    and nz: "\<not> is_zero D"
    and plane: "is_zero (dadd (denominator p A B C) D)"
  shows "projectOntoPlane p A B C D = p"
proof -
  from plane obtain t b s a where den: "denominator p A B C = Finite t b" and D: "D = Finite s a"
    by (rule is_zero_dadd_Finite)
  have b: "0 \<le> b \<and> on_grid b"
    using den unfolding denominator_def by (rule dadd_Finite_on_grid)
  have a: "0 \<le> a" "on_grid a" "a \<noteq> 0"
    using wf(4) nz is_double_on_grid [of s a] by (simp_all add: D)
  have "valof (Finite t b) + valof (Finite s a) = 0"
    using plane b a(2) unfolding den D by (intro dadd_is_zero) simp_all
  with a b have eq: "b = a" "t = (\<not> s)"
    by (auto split: if_splits)
  have "ddiv (dneg D) (denominator p A B C) = Finite False 1"
    using a(3) by (simp add: den D eq round64_def round_mag_1)
  then show ?thesis
    using wf(1-3) by (simp add: projectOntoPlane_def dmul_one XYZ_default_def)
qed

theorem projectOntoPlane_fixed_point_witness:
  "is_double (Finite False 1) \<and> is_double (Finite True 6) \<and> \<not> is_zero (Finite True 6)
   \<and> is_zero (dadd (denominator (XYZ (Finite False 1) (Finite False 1) (Finite False 1))
                     (Finite False 1) (Finite False 2) (Finite False 3)) (Finite True 6))
   \<and> projectOntoPlane (XYZ (Finite False 1) (Finite False 1) (Finite False 1))
        (Finite False 1) (Finite False 2) (Finite False 3) (Finite True 6)
        = XYZ (Finite False 1) (Finite False 1) (Finite False 1)"
proof -
  let ?p = "XYZ (Finite False 1) (Finite False 1) (Finite False 1)"
  have w: "is_double (x ?p)" "is_double (y ?p)" "is_double (z ?p)" "is_double (Finite True 6)"
    using round_mag_small by (simp_all add: XYZ_def)
  have nz: "\<not> is_zero (Finite True 6)" by simp
  have pl: "is_zero (dadd (denominator ?p (Finite False 1) (Finite False 2) (Finite False 3))
      (Finite True 6))"
    using round_mag_small by (simp add: denominator_def XYZ_def round64_def Let_def)
  from projectOntoPlane_fixed_point [OF w nz pl] w nz pl show ?thesis
    by (simp add: XYZ_def)
qed

text \<open>
  The claim as first stated fails on doubles. P = (2^53, 1, 1) lies on the plane
  (1, 1, 1, -(2^53 + 2)) and D is not zero, but 2^53 + 1 rounds to 2^53 twice, the
  computed denominator is 2^53, s is 1 + 2^-52, and the returned point is
  (2^53 + 2, 1 + 2^-52, 1 + 2^-52), not P.
\<close>

theorem projectOntoPlane_fixed_point_counterexample:
  "valof (Finite True (2 ^ 53 + 2)) \<noteq> 0
   \<and> valof (Finite False 1) * valof (Finite False (2 ^ 53))
       + valof (Finite False 1) * valof (Finite False 1)
       + valof (Finite False 1) * valof (Finite False 1) + valof (Finite True (2 ^ 53 + 2)) = 0
   \<and> projectOntoPlane (XYZ (Finite False (2 ^ 53)) (Finite False 1) (Finite False 1))
        (Finite False 1) (Finite False 1) (Finite False 1) (Finite True (2 ^ 53 + 2))
       = XYZ (Finite False (2 ^ 53 + 2)) (Finite False (1 + 1 / 2 ^ 52))
             (Finite False (1 + 1 / 2 ^ 52))
   \<and> projectOntoPlane (XYZ (Finite False (2 ^ 53)) (Finite False 1) (Finite False 1))
        (Finite False 1) (Finite False 1) (Finite False 1) (Finite True (2 ^ 53 + 2))
       \<noteq> XYZ (Finite False (2 ^ 53)) (Finite False 1) (Finite False 1)"
proof -
  have p: "projectOntoPlane (XYZ (Finite False (2 ^ 53)) (Finite False 1) (Finite False 1))
        (Finite False 1) (Finite False 1) (Finite False 1) (Finite True (2 ^ 53 + 2))
       = XYZ (Finite False (2 ^ 53 + 2)) (Finite False (1 + 1 / 2 ^ 52))
             (Finite False (1 + 1 / 2 ^ 52))"
    using round_mag_2_53 round_mag_2_53_plus_1 round_mag_2_53_plus_2
    by (simp add: projectOntoPlane_def denominator_def XYZ_def XYZ_default_def round64_def
        Let_def round_mag_one_plus_ulp)
  show ?thesis unfolding p by (simp add: XYZ_def)
qed

subsection \<open>distanceFrom\<close>





section \<open>The mesh builder\<close>

lemma findMesh_to_coordinates:
  "findMesh physNorm toNorm screen ms = Some mesh \<Longrightarrow>
   map snd mesh =
     map (\<lambda>m. toNorm (XYLatLong.x (xyLatLong m), XYLatLong.y (xyLatLong m))) ms"
proof (induction ms arbitrary: mesh)
  case Nil
  then show ?case by simp
next
  case (Cons m ms)
  then show ?case by (auto split: option.splits if_splits)
qed

lemma findMesh_from_coordinates:
  "findMesh physNorm toNorm screen ms = Some mesh \<Longrightarrow>
   map fst mesh =
     map (\<lambda>m. physNorm screen
            (projectOntoPlane (xyz m) (A screen) (B screen) (C screen) (D screen))) ms"
proof (induction ms arbitrary: mesh)
  case Nil
  then show ?case by simp
next
  case (Cons m ms)
  then show ?case by (auto split: option.splits if_splits)
qed

text \<open>The build is accepted exactly when no sample has a zero denominator.\<close>

lemma findMesh_accepts_iff:
  "(\<exists>mesh. findMesh physNorm toNorm screen ms = Some mesh) \<longleftrightarrow>
   (\<forall>m \<in> set ms. \<not> is_zero (denominator (xyz m) (A screen) (B screen) (C screen)))"
proof (induction ms)
  case Nil
  show ?case by simp
next
  case (Cons m ms)
  then show ?case by (auto split: option.splits)
qed

lemma findMesh_example:
  "findMesh (\<lambda>s q. (valof (x q), valof (y q))) (\<lambda>c. c) exampleScreen exampleMappings
     = Some [((0, 0), (3, 4)), ((1 / 2, 0), (5, 6))]"
  using round_mag_small
  by (simp add: exampleScreen_def exampleMappings_def Mapping_def XYLatLong_def
      XYLatLong_default_def XYZ_def XYZ_default_def projectOntoPlane_def denominator_def
      round64_def Let_def round_mag_half)

text \<open>
  C5. For every mapping sequence the mesh builder accepts, the mesh has exactly one
  entry per input mapping, in input order: entry i's "to" coordinate is input sample
  i's raw screen position (x, y) under the configured normalisation.
\<close>

theorem findMesh_one_entry_per_mapping:
  assumes "findMesh physNorm toNorm screen ms = Some mesh"
  shows "length mesh = length ms
       \<and> (\<forall>i < length ms.
            snd (mesh ! i) =
              toNorm (XYLatLong.x (xyLatLong (ms ! i)), XYLatLong.y (xyLatLong (ms ! i))))"
proof -
  let ?to = "\<lambda>m. toNorm (XYLatLong.x (xyLatLong m), XYLatLong.y (xyLatLong m))"
  have eq: "map snd mesh = map ?to ms"
    using assms by (rule findMesh_to_coordinates)
  then have len: "length mesh = length ms"
    by (rule map_eq_imp_length_eq)
  have "snd (mesh ! i) = ?to (ms ! i)" if "i < length ms" for i
  proof -
    have "snd (mesh ! i) = map snd mesh ! i" using that len by simp
    also have "\<dots> = map ?to ms ! i" by (simp only: eq)
    also have "\<dots> = ?to (ms ! i)" using that by simp
    finally show ?thesis .
  qed
  with len show ?thesis by blast
qed

theorem findMesh_one_entry_per_mapping_witness:
  "findMesh (\<lambda>s q. (valof (x q), valof (y q))) (\<lambda>c. c) exampleScreen exampleMappings
     = Some [((0, 0), (3, 4)), ((1 / 2, 0), (5, 6))]
   \<and> length [((0, 0), (3, 4)), ((1 / 2, 0), (5, 6)) :: Point2d \<times> Point2d]
       = length exampleMappings
   \<and> snd ([((0, 0), (3, 4)), ((1 / 2, 0), (5, 6)) :: Point2d \<times> Point2d] ! 1)
       = (XYLatLong.x (xyLatLong (exampleMappings ! 1)),
          XYLatLong.y (xyLatLong (exampleMappings ! 1)))"
proof -
  let ?mesh = "[((0, 0), (3, 4)), ((1 / 2, 0), (5, 6))] :: MeshDescription"
  have h: "findMesh (\<lambda>s q. (valof (x q), valof (y q))) (\<lambda>c. c) exampleScreen exampleMappings
      = Some ?mesh"
    by (rule findMesh_example)
  have l: "(1::nat) < length exampleMappings"
    by (simp add: exampleMappings_def)
  have t: "length ?mesh = length exampleMappings
         \<and> (\<forall>i < length exampleMappings.
              snd (?mesh ! i) =
                (XYLatLong.x (xyLatLong (exampleMappings ! i)),
                 XYLatLong.y (xyLatLong (exampleMappings ! i))))"
    using findMesh_one_entry_per_mapping [OF h] .
  from t l have "snd (?mesh ! 1) =
      (XYLatLong.x (xyLatLong (exampleMappings ! 1)),
       XYLatLong.y (xyLatLong (exampleMappings ! 1)))"
    by blast
  with t h show ?thesis by blast
qed

end
